theory Spec2Isabelle
  imports Complex_Main "HOL-Library.Sublist" "HOL-Library.Multiset"
begin

section \<open>Tables\<close>

text \<open>
  The module \<^verbatim>\<open>folktables/acs.py\<close> works on pandas data frames. A data frame is modelled
  row-major: its column names, and its rows, each carrying its index label and one cell
  per column. Column names are taken as distinct (the CSV reader renames duplicates);
  index labels may repeat.

  A cell is a finite number (every finite 64-bit float or integer is a rational), one of
  the two float infinities, the missing-value sentinel \<open>NaN\<close>, or a string (the serial
  number column is read as text).
\<close>

datatype cell = Num rat | PInf | NInf | NaN | Str string

text \<open>
  The exceptions the module can raise. \<open>AssertionError None\<close> is a bare \<^verbatim>\<open>assert\<close>;
  \<open>AssertionError (Some (n, m))\<close> is the one whose message is
  \<^verbatim>\<open>Lengths do not match after join: n vs m\<close>. \<open>LoaderError\<close> stands for whatever
  \<^verbatim>\<open>load_acs\<close> raises.
\<close>

datatype error =
    ValueError string
  | KeyError string
  | TypeError
  | AssertionError "(nat \<times> nat) option"
  | LoaderError string

type_synonym row = "nat \<times> cell list"

record table =
  columns :: "string list"
  rows :: "row list"

definition and_then :: "error + 'a \<Rightarrow> ('a \<Rightarrow> error + 'b) \<Rightarrow> error + 'b" where
  "and_then r f = (case r of Inl e \<Rightarrow> Inl e | Inr x \<Rightarrow> f x)"

fun index_of :: "'a \<Rightarrow> 'a list \<Rightarrow> nat" where
  "index_of x [] = 0"
| "index_of x (y # ys) = (if x = y then 0 else Suc (index_of x ys))"

text \<open>The cell of a row under column \<open>c\<close>, for a table whose columns are \<open>cs\<close>.\<close>

definition cell_at :: "string list \<Rightarrow> string \<Rightarrow> row \<Rightarrow> cell" where
  "cell_at cs c r = snd r ! index_of c cs"

text \<open>\<^verbatim>\<open>df[c]\<close>: the column as a series; a missing column raises \<^verbatim>\<open>KeyError\<close>.\<close>

definition getitem :: "table \<Rightarrow> string \<Rightarrow> error + cell list" where
  "getitem df c =
     (if c \<in> set (columns df) then Inr (map (cell_at (columns df) c) (rows df))
      else Inl (KeyError c))"

text \<open>
  Comparing a series with a number, element by element. A missing value compares false
  under every operator; a string raises \<^verbatim>\<open>TypeError\<close> under an ordering and is
  unequal to every number.
\<close>

datatype cmp = Gt | Ge | Lt | Le | Eq

fun compare_num :: "cmp \<Rightarrow> rat \<Rightarrow> rat \<Rightarrow> bool" where
  "compare_num Gt q k = (q > k)"
| "compare_num Ge q k = (q \<ge> k)"
| "compare_num Lt q k = (q < k)"
| "compare_num Le q k = (q \<le> k)"
| "compare_num Eq q k = (q = k)"

fun compare_cell :: "cmp \<Rightarrow> rat \<Rightarrow> cell \<Rightarrow> error + bool" where
  "compare_cell opr k (Num q) = Inr (compare_num opr q k)"
| "compare_cell opr k PInf = Inr (opr = Gt \<or> opr = Ge)"
| "compare_cell opr k NInf = Inr (opr = Lt \<or> opr = Le)"
| "compare_cell opr k NaN = Inr False"
| "compare_cell opr k (Str s) = (if opr = Eq then Inr False else Inl TypeError)"

fun compare_series :: "cmp \<Rightarrow> rat \<Rightarrow> cell list \<Rightarrow> error + bool list" where
  "compare_series opr k [] = Inr []"
| "compare_series opr k (c # cs) =
     (case compare_cell opr k c of
        Inl e \<Rightarrow> Inl e
      | Inr b \<Rightarrow> (case compare_series opr k cs of Inl e \<Rightarrow> Inl e | Inr bs \<Rightarrow> Inr (b # bs)))"

text \<open>\<^verbatim>\<open>df[mask]\<close>: the rows whose mask entry is true, labels and cells unchanged.\<close>

definition select_mask :: "table \<Rightarrow> bool list \<Rightarrow> table" where
  "select_mask df m = df\<lparr>rows := map fst (filter snd (zip (rows df) m))\<rparr>"

text \<open>\<^verbatim>\<open>df[df[c] opr k]\<close>, one line of a filter function.\<close>

definition filter_cmp :: "string \<Rightarrow> cmp \<Rightarrow> rat \<Rightarrow> table \<Rightarrow> error + table" where
  "filter_cmp c opr k df =
     and_then (getitem df c) (\<lambda>s.
     and_then (compare_series opr k s) (\<lambda>m.
     Inr (select_mask df m)))"

text \<open>\<^verbatim>\<open>df.drop(labels)\<close>: every row whose index label is among \<open>labels\<close> goes.\<close>

definition drop_labels :: "table \<Rightarrow> nat list \<Rightarrow> table" where
  "drop_labels df ls = df\<lparr>rows := filter (\<lambda>r. fst r \<notin> set ls) (rows df)\<rparr>"

section \<open>The filter functions\<close>

definition adult_filter :: "table \<Rightarrow> error + table" where
  "adult_filter data =
     and_then (filter_cmp ''AGEP'' Gt 16 data) (\<lambda>df.
     and_then (filter_cmp ''PINCP'' Gt 100 df) (\<lambda>df.
     and_then (filter_cmp ''WKHP'' Gt 0 df) (\<lambda>df.
     filter_cmp ''PWGTP'' Ge 1 df)))"

definition public_coverage_filter :: "table \<Rightarrow> error + table" where
  "public_coverage_filter data =
     and_then (filter_cmp ''AGEP'' Lt 65 data) (\<lambda>df.
     filter_cmp ''PINCP'' Le 30000 df)"

definition travel_time_filter :: "table \<Rightarrow> error + table" where
  "travel_time_filter data =
     and_then (filter_cmp ''AGEP'' Gt 16 data) (\<lambda>df.
     and_then (filter_cmp ''PWGTP'' Ge 1 df) (\<lambda>df.
     filter_cmp ''ESR'' Eq 1 df))"

definition employment_filter :: "table \<Rightarrow> error + table" where
  "employment_filter data =
     and_then (filter_cmp ''AGEP'' Gt 16 data) (\<lambda>df.
     and_then (filter_cmp ''AGEP'' Lt 90 df) (\<lambda>df.
     filter_cmp ''PWGTP'' Ge 1 df))"

text \<open>
  The preprocess of ACSMobility:
  \<^verbatim>\<open>lambda x : x.drop(x.loc[(x['AGEP'] <= 18) | (x['AGEP'] >= 35)].index)\<close>.
\<close>

definition mobility_filter :: "table \<Rightarrow> error + table" where
  "mobility_filter x =
     and_then (getitem x ''AGEP'') (\<lambda>s1.
     and_then (compare_series Le 18 s1) (\<lambda>m1.
     and_then (getitem x ''AGEP'') (\<lambda>s2.
     and_then (compare_series Ge 35 s2) (\<lambda>m2.
     Inr (drop_labels x (map fst (rows (select_mask x (map2 (\<or>) m1 m2)))))))))"

text \<open>The preprocess \<^verbatim>\<open>lambda x: x\<close>.\<close>

definition identity_filter :: "table \<Rightarrow> error + table" where
  "identity_filter x = Inr x"

section \<open>The task catalog\<close>

text \<open>
  A task is built by \<^verbatim>\<open>folktables.BasicProblem\<close> from a dictionary of feature columns
  (each with an optional column transform, \<^verbatim>\<open>None\<close> throughout this module), a target
  column and its transform, a group column, a preprocess and a postprocess. The feature
  matrix is kept as the list of its columns.

  The postprocess functions are built from scikit-learn's \<^verbatim>\<open>preprocessing.scale\<close> and
  numpy's \<^verbatim>\<open>nan_to_num\<close>, which are not part of the module: the tasks take them as
  parameters.
\<close>

type_synonym 'x scaler = "cell list list \<Rightarrow> error + 'x"

type_synonym nan_filler = "cell list list \<Rightarrow> int \<Rightarrow> cell list list"

record 'x basic_problem =
  feature_transforms :: "(string \<times> (cell list \<Rightarrow> cell list) option) list"
  target :: string
  target_transform :: "cell list \<Rightarrow> error + bool list"
  group_column :: string
  preprocess :: "table \<Rightarrow> error + table"
  postprocess :: "cell list list \<Rightarrow> error + 'x"

definition ACSIncome :: "'x scaler \<Rightarrow> 'x basic_problem" where
  "ACSIncome scale = \<lparr>
     feature_transforms = [
        (''AGEP'', None), (''COW'', None), (''SCHL'', None), (''MAR'', None), (''OCCP'', None),
        (''POBP'', None), (''RELP'', None), (''WKHP'', None), (''SEX'', None),
        (''RAC1P'', None)],
     target = ''PINCP'',
     target_transform = compare_series Gt 50000,
     group_column = ''RAC1P'',
     preprocess = adult_filter,
     postprocess = scale\<rparr>"

definition ACSEmployment :: "'x scaler \<Rightarrow> nan_filler \<Rightarrow> 'x basic_problem" where
  "ACSEmployment scale nan_to_num = \<lparr>
     feature_transforms = [
        (''AGEP'', None), (''SCHL'', None), (''MAR'', None), (''RELP'', None), (''DIS'', None),
        (''ESP'', None), (''CIT'', None), (''MIG'', None), (''MIL'', None), (''ANC'', None),
        (''NATIVITY'', None), (''DEAR'', None), (''DEYE'', None), (''DREM'', None),
        (''SEX'', None), (''RAC1P'', None)],
     target = ''ESR'',
     target_transform = compare_series Eq 1,
     group_column = ''RAC1P'',
     preprocess = identity_filter,
     postprocess = (\<lambda>x. scale (nan_to_num x (-1)))\<rparr>"

definition ACSHealthInsurance :: "'x scaler \<Rightarrow> nan_filler \<Rightarrow> 'x basic_problem" where
  "ACSHealthInsurance scale nan_to_num = \<lparr>
     feature_transforms = [
        (''AGEP'', None), (''SCHL'', None), (''MAR'', None), (''SEX'', None), (''DIS'', None),
        (''ESP'', None), (''CIT'', None), (''MIG'', None), (''MIL'', None), (''ANC'', None),
        (''NATIVITY'', None), (''DEAR'', None), (''DEYE'', None), (''DREM'', None),
        (''RACAIAN'', None), (''RACASN'', None), (''RACBLK'', None), (''RACNH'', None),
        (''RACPI'', None), (''RACSOR'', None), (''RACWHT'', None), (''PINCP'', None),
        (''ESR'', None), (''ST'', None), (''FER'', None)],
     target = ''HINS2'',
     target_transform = compare_series Eq 1,
     group_column = ''RAC1P'',
     preprocess = identity_filter,
     postprocess = (\<lambda>x. scale (nan_to_num x (-1)))\<rparr>"

definition ACSPublicCoverage :: "'x scaler \<Rightarrow> nan_filler \<Rightarrow> 'x basic_problem" where
  "ACSPublicCoverage scale nan_to_num = \<lparr>
     feature_transforms = [
        (''AGEP'', None), (''SCHL'', None), (''MAR'', None), (''SEX'', None), (''DIS'', None),
        (''ESP'', None), (''CIT'', None), (''MIG'', None), (''MIL'', None), (''ANC'', None),
        (''NATIVITY'', None), (''DEAR'', None), (''DEYE'', None), (''DREM'', None),
        (''PINCP'', None), (''ESR'', None), (''ST'', None), (''FER'', None), (''RAC1P'', None)],
     target = ''PUBCOV'',
     target_transform = compare_series Eq 1,
     group_column = ''RAC1P'',
     preprocess = public_coverage_filter,
     postprocess = (\<lambda>x. scale (nan_to_num x (-1)))\<rparr>"

definition ACSTravelTime :: "'x scaler \<Rightarrow> nan_filler \<Rightarrow> 'x basic_problem" where
  "ACSTravelTime scale nan_to_num = \<lparr>
     feature_transforms = [
        (''AGEP'', None), (''SCHL'', None), (''MAR'', None), (''SEX'', None), (''DIS'', None),
        (''ESP'', None), (''MIG'', None), (''RELP'', None), (''RAC1P'', None),
        (''PUMA'', None), (''ST'', None), (''CIT'', None), (''OCCP'', None), (''JWTR'', None),
        (''POWPUMA'', None), (''POVPIP'', None)],
     target = ''JWMNP'',
     target_transform = compare_series Gt 20,
     group_column = ''RAC1P'',
     preprocess = travel_time_filter,
     postprocess = (\<lambda>x. scale (nan_to_num x (-1)))\<rparr>"

definition ACSMobility :: "'x scaler \<Rightarrow> nan_filler \<Rightarrow> 'x basic_problem" where
  "ACSMobility scale nan_to_num = \<lparr>
     feature_transforms = [
        (''AGEP'', None), (''SCHL'', None), (''MAR'', None), (''SEX'', None), (''DIS'', None),
        (''ESP'', None), (''CIT'', None), (''MIL'', None), (''ANC'', None),
        (''NATIVITY'', None), (''RELP'', None), (''DEAR'', None), (''DEYE'', None),
        (''DREM'', None), (''RAC1P'', None), (''GCL'', None), (''COW'', None), (''ESR'', None),
        (''WKHP'', None), (''JWMNP'', None), (''PINCP'', None)],
     target = ''MIG'',
     target_transform = compare_series Eq 1,
     group_column = ''RAC1P'',
     preprocess = mobility_filter,
     postprocess = (\<lambda>x. scale (nan_to_num x (-1)))\<rparr>"

definition ACSEmploymentFiltered :: "'x scaler \<Rightarrow> nan_filler \<Rightarrow> 'x basic_problem" where
  "ACSEmploymentFiltered scale nan_to_num = \<lparr>
     feature_transforms = [
        (''AGEP'', None), (''SCHL'', None), (''MAR'', None), (''SEX'', None), (''DIS'', None),
        (''ESP'', None), (''MIG'', None), (''CIT'', None), (''MIL'', None), (''ANC'', None),
        (''NATIVITY'', None), (''RELP'', None), (''DEAR'', None), (''DEYE'', None),
        (''DREM'', None), (''RAC1P'', None), (''GCL'', None)],
     target = ''ESR'',
     target_transform = compare_series Eq 1,
     group_column = ''RAC1P'',
     preprocess = employment_filter,
     postprocess = (\<lambda>x. scale (nan_to_num x (-1)))\<rparr>"

definition ACSIncomePovertyRatio :: "'x scaler \<Rightarrow> nan_filler \<Rightarrow> 'x basic_problem" where
  "ACSIncomePovertyRatio scale nan_to_num = \<lparr>
     feature_transforms = [
        (''AGEP'', None), (''SCHL'', None), (''MAR'', None), (''SEX'', None), (''DIS'', None),
        (''ESP'', None), (''MIG'', None), (''CIT'', None), (''MIL'', None), (''ANC'', None),
        (''NATIVITY'', None), (''RELP'', None), (''DEAR'', None), (''DEYE'', None),
        (''DREM'', None), (''RAC1P'', None), (''GCL'', None), (''ESR'', None),
        (''OCCP'', None), (''WKHP'', None)],
     target = ''POVPIP'',
     target_transform = compare_series Lt 250,
     group_column = ''RAC1P'',
     preprocess = identity_filter,
     postprocess = (\<lambda>x. scale (nan_to_num x (-1)))\<rparr>"

definition catalog :: "'x scaler \<Rightarrow> nan_filler \<Rightarrow> 'x basic_problem list" where
  "catalog scale nan_to_num =
     [ACSIncome scale, ACSEmployment scale nan_to_num, ACSHealthInsurance scale nan_to_num,
      ACSPublicCoverage scale nan_to_num, ACSTravelTime scale nan_to_num,
      ACSMobility scale nan_to_num, ACSEmploymentFiltered scale nan_to_num,
      ACSIncomePovertyRatio scale nan_to_num]"

text \<open>
  Modelled from the spec: \<^verbatim>\<open>BasicProblem\<close> and its extraction method live in
  \<^verbatim>\<open>folktables/folktables.py\<close>, which is not among the sources. The spec's
  \<^verbatim>\<open>features_and_target\<close> is: apply \<^verbatim>\<open>preprocess\<close> to the table; extract each feature
  column of the filtered table in declared order, through its column transform if it has
  one; apply \<^verbatim>\<open>postprocess\<close> to the assembled matrix; extract the target column of the
  filtered table and apply \<^verbatim>\<open>target_transform\<close>; extract the group column of the filtered
  table unmodified; return the three. A column that is absent is a fatal error.
\<close>

fun extract_features ::
  "(string \<times> (cell list \<Rightarrow> cell list) option) list \<Rightarrow> table \<Rightarrow> error + cell list list" where
  "extract_features [] df = Inr []"
| "extract_features ((c, tr) # fs) df =
     and_then (getitem df c) (\<lambda>s.
     and_then (extract_features fs df) (\<lambda>rest.
     Inr ((case tr of None \<Rightarrow> s | Some f \<Rightarrow> f s) # rest)))"

definition features_and_target ::
  "'x basic_problem \<Rightarrow> table \<Rightarrow> error + ('x \<times> bool list \<times> cell list)" where
  "features_and_target p t =
     and_then (preprocess p t) (\<lambda>filtered.
     and_then (extract_features (feature_transforms p) filtered) (\<lambda>X.
     and_then (postprocess p X) (\<lambda>X'.
     and_then (getitem filtered (target p)) (\<lambda>raw.
     and_then (target_transform p raw) (\<lambda>y.
     and_then (getitem filtered (group_column p)) (\<lambda>g.
     Inr (X', y, g)))))))"

section \<open>The data source\<close>

text \<open>The fields \<^verbatim>\<open>_survey_year\<close>, \<^verbatim>\<open>_horizon\<close>, \<^verbatim>\<open>_survey\<close> and \<^verbatim>\<open>_root_dir\<close>.\<close>

record acs_data_source =
  self_survey_year :: string
  self_horizon :: string
  self_survey :: string
  self_root_dir :: string

text \<open>The constructor (the message of the error is written without its quotation marks).\<close>

definition init :: "string \<Rightarrow> string \<Rightarrow> string \<Rightarrow> string \<Rightarrow> error + acs_data_source" where
  "init survey_year horizon survey root_dir =
     (if horizon \<notin> set [''1-Year'', ''5-Year'']
      then Inl (ValueError ''Horizon must be either 1-Year or 5-Year'')
      else Inr \<lparr>self_survey_year = survey_year, self_horizon = horizon,
                self_survey = survey, self_root_dir = root_dir\<rparr>)"

text \<open>
  \<^verbatim>\<open>load_acs\<close> is imported from \<^verbatim>\<open>folktables/load_acs.py\<close>, which is not among the
  sources: \<^verbatim>\<open>get_data\<close> takes it as a parameter. It receives its keyword arguments (an
  argument the caller leaves out is \<open>None\<close>, so the callee's default applies), reads and
  may change the files on disk (the state \<open>'w\<close>), and returns a table or raises.
\<close>

record load_args =
  arg_root_dir :: string
  arg_year :: string
  arg_states :: "string list option"
  arg_horizon :: string
  arg_survey :: string
  arg_density :: "rat option"
  arg_random_seed :: "int option"
  arg_serial_filter_list :: "cell list option"
  arg_download :: bool

type_synonym 'w loader = "load_args \<Rightarrow> 'w \<Rightarrow> (error + table) \<times> 'w"

text \<open>
  \<^verbatim>\<open>df[cs]\<close> with a list of column names: the named columns in the order given; a name
  that is not a column raises \<^verbatim>\<open>KeyError\<close>.
\<close>

definition select_columns :: "table \<Rightarrow> string list \<Rightarrow> error + table" where
  "select_columns df cs =
     (case filter (\<lambda>c. c \<notin> set (columns df)) cs of
        [] \<Rightarrow> Inr \<lparr>columns = cs,
                   rows = map (\<lambda>r. (fst r, map (\<lambda>c. cell_at (columns df) c r) cs)) (rows df)\<rparr>
      | c # _ \<Rightarrow> Inl (KeyError c))"

text \<open>
  \<^verbatim>\<open>pd.merge(left, right, on=[key])\<close>, the inner join: one output row for each pair of a
  left row and a right row with equal keys; the columns
  are those of the left table, then those of the right table apart from the key; a
  column name other than the key that both tables have gets the suffix \<^verbatim>\<open>_x\<close> on the
  left and \<^verbatim>\<open>_y\<close> on the right; the result has a fresh index \<open>0, 1, ...\<close>. Missing keys
  match each other. A key that is absent from either table raises \<^verbatim>\<open>KeyError\<close>.
  The order in which the joined rows come out differs between versions of pandas:
  \<open>merge_rows\<close> lists them by left row, and \<open>row_order\<close> is the rearrangement that the
  installed version makes of that list.
\<close>

definition merge_rows :: "table \<Rightarrow> table \<Rightarrow> string \<Rightarrow> cell list list" where
  "merge_rows left right key =
     concat (map (\<lambda>l.
       map (\<lambda>r. snd l @ map (\<lambda>c. cell_at (columns right) c r)
                              (filter (\<lambda>c. c \<noteq> key) (columns right)))
           (filter (\<lambda>r. cell_at (columns right) key r = cell_at (columns left) key l)
                   (rows right)))
       (rows left))"

definition merge ::
  "(cell list list \<Rightarrow> cell list list) \<Rightarrow> table \<Rightarrow> table \<Rightarrow> string \<Rightarrow> error + table" where
  "merge row_order left right key =
     (if key \<notin> set (columns left) \<or> key \<notin> set (columns right) then Inl (KeyError key)
      else Inr \<lparr>
        columns =
          map (\<lambda>c. if c \<noteq> key \<and> c \<in> set (columns right) then c @ ''_x'' else c)
              (columns left) @
          map (\<lambda>c. if c \<in> set (columns left) then c @ ''_y'' else c)
              (filter (\<lambda>c. c \<noteq> key) (columns right)),
        rows = (let rs = row_order (merge_rows left right key) in zip [0..<length rs] rs)\<rparr>)"

text \<open>
  \<^verbatim>\<open>get_data\<close>. The instance is passed in and returned, so that an assignment to one of
  its fields would show; the source makes none. An \<^verbatim>\<open>assert\<close> whose condition is false
  raises \<^verbatim>\<open>AssertionError\<close> (the interpreter runs with assertions on).
  \<open>household_cols\<close> is a Python set: it is kept as a list without repetitions, and
  \<open>list_of\<close> is the order in which \<^verbatim>\<open>list(household_cols)\<close> enumerates it, which Python
  leaves open.
\<close>

definition get_data ::
  "'w loader \<Rightarrow> (string list \<Rightarrow> string list) \<Rightarrow> (cell list list \<Rightarrow> cell list list) \<Rightarrow>
   acs_data_source \<Rightarrow>
   string list option \<Rightarrow> rat \<Rightarrow> int \<Rightarrow> bool \<Rightarrow> bool \<Rightarrow> 'w \<Rightarrow>
   (error + table) \<times> acs_data_source \<times> 'w" where
  "get_data load_acs list_of row_order self states density random_seed join_household download w =
     (case load_acs \<lparr>arg_root_dir = self_root_dir self,
                     arg_year = self_survey_year self,
                     arg_states = states,
                     arg_horizon = self_horizon self,
                     arg_survey = self_survey self,
                     arg_density = Some density,
                     arg_random_seed = Some random_seed,
                     arg_serial_filter_list = None,
                     arg_download = download\<rparr> w of
        (Inl e, w1) \<Rightarrow> (Inl e, self, w1)
      | (Inr data, w1) \<Rightarrow>
          if join_household then
            let orig_len = length (rows data) in
            if self_survey self \<noteq> ''person'' then (Inl (AssertionError None), self, w1)
            else
              (case getitem data ''SERIALNO'' of
                 Inl e \<Rightarrow> (Inl e, self, w1)
               | Inr serials \<Rightarrow>
                  (case load_acs \<lparr>arg_root_dir = self_root_dir self,
                                  arg_year = self_survey_year self,
                                  arg_states = states,
                                  arg_horizon = self_horizon self,
                                  arg_survey = ''household'',
                                  arg_density = None,
                                  arg_random_seed = None,
                                  arg_serial_filter_list = Some serials,
                                  arg_download = download\<rparr> w1 of
                     (Inl e, w2) \<Rightarrow> (Inl e, self, w2)
                   | (Inr household_data, w2) \<Rightarrow>
                       let household_cols =
                             remdups (filter (\<lambda>c. c \<notin> set (columns data))
                                             (columns household_data) @ [''SERIALNO''])
                       in
                       (case and_then (select_columns household_data (list_of household_cols))
                                      (\<lambda>hh. merge row_order data hh ''SERIALNO'') of
                          Inl e \<Rightarrow> (Inl e, self, w2)
                        | Inr join \<Rightarrow>
                            if length (rows join) = orig_len then (Inr join, self, w2)
                            else (Inl (AssertionError (Some (length (rows join), orig_len))),
                                  self, w2))))
          else (Inr data, self, w1))"

section \<open>Notions used in the statements\<close>

text \<open>
  A cell can be compared under an operator when the comparison does not raise; the
  comparison holds for it when it returns true.
\<close>

fun is_str :: "cell \<Rightarrow> bool" where
  "is_str (Str s) = True"
| "is_str c = False"

definition comparable :: "cmp \<Rightarrow> cell \<Rightarrow> bool" where
  "comparable opr c = (opr = Eq \<or> \<not> is_str c)"

definition holds :: "cmp \<Rightarrow> rat \<Rightarrow> cell \<Rightarrow> bool" where
  "holds opr k c = (compare_cell opr k c = Inr True)"

text \<open>
  A filter function is a chain of steps \<^verbatim>\<open>df = df[df[c] opr k]\<close>; \<open>keeps\<close> is the row
  predicate of a chain: every comparison of the chain holds for the row.
\<close>

type_synonym step = "string \<times> cmp \<times> rat"

fun satisfies :: "string list \<Rightarrow> step \<Rightarrow> row \<Rightarrow> bool" where
  "satisfies cs (c, opr, k) r = holds opr k (cell_at cs c r)"

fun filter_chain :: "step list \<Rightarrow> table \<Rightarrow> error + table" where
  "filter_chain [] df = Inr df"
| "filter_chain ((c, opr, k) # ss) df = and_then (filter_cmp c opr k df) (filter_chain ss)"

definition keeps :: "string list \<Rightarrow> step list \<Rightarrow> row \<Rightarrow> bool" where
  "keeps cs ss = (\<lambda>r. list_all (\<lambda>s. satisfies cs s r) ss)"

text \<open>
  The rows that the preprocess of ACSMobility selects for dropping, and the rows it keeps:
  those whose index label is the label of no selected row.
\<close>

definition mobility_drops :: "string list \<Rightarrow> row \<Rightarrow> bool" where
  "mobility_drops cs r = (holds Le 18 (cell_at cs ''AGEP'' r) \<or> holds Ge 35 (cell_at cs ''AGEP'' r))"

definition mobility_keeps :: "table \<Rightarrow> row \<Rightarrow> bool" where
  "mobility_keeps x = (\<lambda>r. fst r \<notin> fst ` set (filter (mobility_drops (columns x)) (rows x)))"

text \<open>
  The keyword arguments of the two calls of \<^verbatim>\<open>load_acs\<close> in \<^verbatim>\<open>get_data\<close>, the set
  \<open>household_cols\<close>, and the column selection followed by the merge.
\<close>

definition person_args ::
  "acs_data_source \<Rightarrow> string list option \<Rightarrow> rat \<Rightarrow> int \<Rightarrow> bool \<Rightarrow> load_args" where
  "person_args self states density random_seed download =
     \<lparr>arg_root_dir = self_root_dir self, arg_year = self_survey_year self,
      arg_states = states, arg_horizon = self_horizon self, arg_survey = self_survey self,
      arg_density = Some density, arg_random_seed = Some random_seed,
      arg_serial_filter_list = None, arg_download = download\<rparr>"

definition household_args ::
  "acs_data_source \<Rightarrow> string list option \<Rightarrow> cell list \<Rightarrow> bool \<Rightarrow> load_args" where
  "household_args self states serials download =
     \<lparr>arg_root_dir = self_root_dir self, arg_year = self_survey_year self,
      arg_states = states, arg_horizon = self_horizon self, arg_survey = ''household'',
      arg_density = None, arg_random_seed = None,
      arg_serial_filter_list = Some serials, arg_download = download\<rparr>"

definition household_cols :: "table \<Rightarrow> table \<Rightarrow> string list" where
  "household_cols data household_data =
     remdups (filter (\<lambda>c. c \<notin> set (columns data)) (columns household_data) @ [''SERIALNO''])"

definition merged ::
  "(string list \<Rightarrow> string list) \<Rightarrow> (cell list list \<Rightarrow> cell list list) \<Rightarrow>
   table \<Rightarrow> table \<Rightarrow> error + table" where
  "merged list_of row_order data household_data =
     and_then (select_columns household_data (list_of (household_cols data household_data)))
              (\<lambda>hh. merge row_order data hh ''SERIALNO'')"

text \<open>
  Modelled from the spec: \<^verbatim>\<open>load_acs\<close> (\<^verbatim>\<open>folktables/load_acs.py\<close>) is not among the
  sources. The spec has the household table loaded "restricted to the serial numbers
  present in the person table": a table that the loader returns for a call with a serial
  filter list has no row whose serial number is outside the list.
\<close>

definition honours_serial_filter :: "'w loader \<Rightarrow> bool" where
  "honours_serial_filter load_acs =
     (\<forall>args w t w' l.
        load_acs args w = (Inr t, w') \<and> arg_serial_filter_list args = Some l \<longrightarrow>
        (\<forall>r\<in>set (rows t). cell_at (columns t) ''SERIALNO'' r \<in> set l))"

text \<open>
  A cell is below a bound, or at most a bound, in the order of the numbers: a number when
  it is so as a rational, minus infinity always, anything else never.
\<close>

fun cell_lt :: "cell \<Rightarrow> rat \<Rightarrow> bool" where
  "cell_lt (Num q) k = (q < k)"
| "cell_lt NInf k = True"
| "cell_lt c k = False"

fun cell_le :: "cell \<Rightarrow> rat \<Rightarrow> bool" where
  "cell_le (Num q) k = (q \<le> k)"
| "cell_le NInf k = True"
| "cell_le c k = False"

text \<open>
  The cells of an inner join of \<open>data\<close> and \<open>hh\<close> on \<open>key\<close>: for each row of \<open>data\<close>
  in order, each row of \<open>hh\<close> with the same key, the cells of the first followed by the
  cells of the second under the columns \<open>extra\<close>.
\<close>

definition joined_cells :: "table \<Rightarrow> table \<Rightarrow> string \<Rightarrow> string list \<Rightarrow> cell list list" where
  "joined_cells data hh key extra =
     concat (map (\<lambda>l.
       map (\<lambda>r. snd l @ map (\<lambda>c. cell_at (columns hh) c r) extra)
           (filter (\<lambda>r. cell_at (columns hh) key r = cell_at (columns data) key l) (rows hh)))
       (rows data))"

section \<open>Example inputs\<close>

text \<open>
  A person table of two households, a household table that covers both, and one that
  lacks the second household; a loader that serves a fixed person table and a fixed
  household table, each restricted to the serial filter list when one is passed; the
  household table as that loader returns it for the person table, and the join when the
  set of columns and the joined rows are both enumerated backwards.
\<close>

definition example_person :: table where
  "example_person = \<lparr>
     columns = [''SERIALNO'', ''SPORDER'', ''AGEP'', ''ST''],
     rows = [(0, [Str ''H1'', Num 1, Num 40, Num 6]),
             (1, [Str ''H1'', Num 2, Num 38, Num 6]),
             (2, [Str ''H2'', Num 1, Num 70, Num 6])]\<rparr>"

definition example_household :: table where
  "example_household = \<lparr>
     columns = [''SERIALNO'', ''ST'', ''NP'', ''HINCP''],
     rows = [(0, [Str ''H1'', Num 6, Num 2, Num 90000]),
             (1, [Str ''H2'', Num 6, Num 1, Num 20000]),
             (2, [Str ''H3'', Num 6, Num 4, Num 55000])]\<rparr>"

definition example_household_short :: table where
  "example_household_short = \<lparr>
     columns = [''SERIALNO'', ''ST'', ''NP'', ''HINCP''],
     rows = [(0, [Str ''H1'', Num 6, Num 2, Num 90000]),
             (2, [Str ''H3'', Num 6, Num 4, Num 55000])]\<rparr>"

definition example_restrict :: "table \<Rightarrow> load_args \<Rightarrow> table" where
  "example_restrict t args =
     t\<lparr>rows := filter (\<lambda>r. case arg_serial_filter_list args of
                                None \<Rightarrow> True
                              | Some l \<Rightarrow> cell_at (columns t) ''SERIALNO'' r \<in> set l)
                     (rows t)\<rparr>"

definition example_load_acs :: "table \<Rightarrow> table \<Rightarrow> unit loader" where
  "example_load_acs person household args w =
     (if arg_survey args = ''person'' then Inr (example_restrict person args)
      else if arg_survey args = ''household'' then Inr (example_restrict household args)
      else Inl (LoaderError ''survey''), w)"

definition example_household_loaded :: table where
  "example_household_loaded = \<lparr>
     columns = [''SERIALNO'', ''ST'', ''NP'', ''HINCP''],
     rows = [(0, [Str ''H1'', Num 6, Num 2, Num 90000]),
             (1, [Str ''H2'', Num 6, Num 1, Num 20000])]\<rparr>"

definition example_joined_rev :: table where
  "example_joined_rev = \<lparr>
     columns = [''SERIALNO'', ''SPORDER'', ''AGEP'', ''ST'', ''HINCP'', ''NP''],
     rows = [(0, [Str ''H2'', Num 1, Num 70, Num 6, Num 20000, Num 1]),
             (1, [Str ''H1'', Num 2, Num 38, Num 6, Num 90000, Num 2]),
             (2, [Str ''H1'', Num 1, Num 40, Num 6, Num 90000, Num 2])]\<rparr>"

definition example_source :: "string \<Rightarrow> acs_data_source" where
  "example_source s = \<lparr>self_survey_year = ''2018'', self_horizon = ''1-Year'',
                        self_survey = s, self_root_dir = ''data''\<rparr>"

definition example_joined :: table where
  "example_joined = \<lparr>
     columns = [''SERIALNO'', ''SPORDER'', ''AGEP'', ''ST'', ''NP'', ''HINCP''],
     rows = [(0, [Str ''H1'', Num 1, Num 40, Num 6, Num 2, Num 90000]),
             (1, [Str ''H1'', Num 2, Num 38, Num 6, Num 2, Num 90000]),
             (2, [Str ''H2'', Num 1, Num 70, Num 6, Num 1, Num 20000])]\<rparr>"

definition example_joined_short :: table where
  "example_joined_short = \<lparr>
     columns = [''SERIALNO'', ''SPORDER'', ''AGEP'', ''ST'', ''NP'', ''HINCP''],
     rows = [(0, [Str ''H1'', Num 1, Num 40, Num 6, Num 2, Num 90000]),
             (1, [Str ''H1'', Num 2, Num 38, Num 6, Num 2, Num 90000])]\<rparr>"

text \<open>
  A person table for the income task, with one minor, and what \<open>adult_filter\<close> leaves of
  it; a table with ages and incomes on either side of the bounds of
  \<open>public_coverage_filter\<close>, and what that filter leaves of it; stand-ins for the two
  library functions.
\<close>

definition example_income :: table where
  "example_income = \<lparr>
     columns = [''AGEP'', ''COW'', ''SCHL'', ''MAR'', ''OCCP'', ''POBP'', ''RELP'', ''WKHP'',
                ''SEX'', ''RAC1P'', ''PINCP'', ''PWGTP''],
     rows = [(0, [Num 40, Num 1, Num 21, Num 1, Num 4700, Num 6, Num 0, Num 40, Num 1, Num 1, Num 72000, Num 80]),
             (1, [Num 15, Num 1, Num 12, Num 5, Num 4720, Num 6, Num 2, Num 10, Num 2, Num 1, Num 3000, Num 75]),
             (2, [Num 23, Num 2, Num 16, Num 5, Num 4020, Num 48, Num 0, Num 35, Num 2, Num 2, Num 18000, Num 61]),
             (3, [Num 58, Num 6, Num 22, Num 1, Num 10, Num 36, Num 1, Num 50, Num 1, Num 6, Num 50000, Num 110]),
             (4, [Num 31, Num 1, Num 19, Num 3, Num 5240, Num 6, Num 0, Num 38, Num 2, Num 9, Num 50001, Num 42])]\<rparr>"

definition example_income_adults :: table where
  "example_income_adults = \<lparr>
     columns = [''AGEP'', ''COW'', ''SCHL'', ''MAR'', ''OCCP'', ''POBP'', ''RELP'', ''WKHP'',
                ''SEX'', ''RAC1P'', ''PINCP'', ''PWGTP''],
     rows = [(0, [Num 40, Num 1, Num 21, Num 1, Num 4700, Num 6, Num 0, Num 40, Num 1, Num 1, Num 72000, Num 80]),
             (2, [Num 23, Num 2, Num 16, Num 5, Num 4020, Num 48, Num 0, Num 35, Num 2, Num 2, Num 18000, Num 61]),
             (3, [Num 58, Num 6, Num 22, Num 1, Num 10, Num 36, Num 1, Num 50, Num 1, Num 6, Num 50000, Num 110]),
             (4, [Num 31, Num 1, Num 19, Num 3, Num 5240, Num 6, Num 0, Num 38, Num 2, Num 9, Num 50001, Num 42])]\<rparr>"

definition example_coverage :: table where
  "example_coverage = \<lparr>
     columns = [''AGEP'', ''PINCP''],
     rows = [(0, [Num 64, Num 30000]),
             (1, [Num 65, Num 30000]),
             (2, [Num 64, Num 30001]),
             (3, [Num 70, Num 100]),
             (7, [Num 30, Num 29999]),
             (5, [NaN, Num 100]),
             (6, [Num 20, NaN]),
             (4, [Num 66, Num 45000])]\<rparr>"

definition example_coverage_kept :: table where
  "example_coverage_kept = \<lparr>
     columns = [''AGEP'', ''PINCP''],
     rows = [(0, [Num 64, Num 30000]),
             (7, [Num 30, Num 29999])]\<rparr>"

definition example_scale :: "cell list list scaler" where
  "example_scale X = Inr X"

definition example_nan_to_num :: nan_filler where
  "example_nan_to_num X copy = map (map (\<lambda>c. if c = NaN then Num 0 else c)) X"

section \<open>Properties of the filter functions\<close>

lemma and_then_Inr [simp]: "and_then (Inr x) f = f x"
  by (simp add: and_then_def)

lemma and_then_Inl [simp]: "and_then (Inl e) f = Inl e"
  by (simp add: and_then_def)

lemma and_then_unit: "and_then r Inr = r"
  by (cases r) simp_all

lemma and_then_eq_Inr: "and_then r f = Inr y \<longleftrightarrow> (\<exists>x. r = Inr x \<and> f x = Inr y)"
  by (cases r) simp_all

lemma compare_cell_Inr: "compare_cell opr k c = Inr b \<longleftrightarrow> comparable opr c \<and> b = holds opr k c"
  by (cases c) (auto simp: comparable_def holds_def)

lemma compare_cell_Inl: "compare_cell opr k c = Inl e \<Longrightarrow> \<not> comparable opr c"
  by (cases c) (auto simp: comparable_def split: if_splits)

lemma compare_series_Inr:
  "compare_series opr k cs = Inr m \<longleftrightarrow> (\<forall>c\<in>set cs. comparable opr c) \<and> m = map (holds opr k) cs"
proof (induction cs arbitrary: m)
  case Nil
  show ?case by auto
next
  case (Cons c cs)
  show ?case
  proof (cases "compare_cell opr k c")
    case (Inl e)
    then show ?thesis using compare_cell_Inl [OF Inl] by simp
  next
    case (Inr b)
    then have cb: "comparable opr c" "b = holds opr k c"
      by (simp_all add: compare_cell_Inr)
    show ?thesis
    proof (cases "compare_series opr k cs")
      case (Inl e)
      with Cons [of "map (holds opr k) cs"] Inr show ?thesis by auto
    next
      case r: (Inr bs)
      with Cons [of bs] Inr cb show ?thesis by auto
    qed
  qed
qed

lemma mask_filter: "map fst (filter snd (zip xs (map f xs))) = filter f xs"
  by (induction xs) simp_all

lemma filter_cmp_Inr:
  "filter_cmp c opr k df = Inr df' \<longleftrightarrow>
     c \<in> set (columns df) \<and> (\<forall>r\<in>set (rows df). comparable opr (cell_at (columns df) c r)) \<and>
     df' = df\<lparr>rows := filter (\<lambda>r. holds opr k (cell_at (columns df) c r)) (rows df)\<rparr>"
proof -
  have "map fst (filter snd (zip (rows df) (map (holds opr k) (map (cell_at (columns df) c) (rows df)))))
        = filter (\<lambda>r. holds opr k (cell_at (columns df) c r)) (rows df)"
    using mask_filter [of "rows df" "\<lambda>r. holds opr k (cell_at (columns df) c r)"]
    by (simp add: comp_def)
  then show ?thesis
    by (auto simp: filter_cmp_def getitem_def and_then_eq_Inr compare_series_Inr select_mask_def)
qed

lemma filter_chain_result:
  "filter_chain ss t = Inr t' \<Longrightarrow>
     columns t' = columns t \<and> rows t' = filter (keeps (columns t) ss) (rows t)"
proof (induction ss arbitrary: t)
  case Nil
  then show ?case by (simp add: keeps_def)
next
  case (Cons s ss)
  obtain c opr k where s: "s = (c, opr, k)" by (cases s)
  from Cons.prems obtain t1 where t1: "filter_cmp c opr k t = Inr t1" and r: "filter_chain ss t1 = Inr t'"
    by (auto simp: s and_then_eq_Inr)
  from t1 have c1: "columns t1 = columns t"
    and r1: "rows t1 = filter (\<lambda>r. holds opr k (cell_at (columns t) c r)) (rows t)"
    by (simp_all add: filter_cmp_Inr)
  from Cons.IH [OF r] c1 r1 show ?case
    by (auto simp: s keeps_def intro: filter_cong)
qed

lemma filter_chain_sub:
  "filter_chain ss t = Inr t' \<Longrightarrow> columns u = columns t \<Longrightarrow> set (rows u) \<subseteq> set (rows t) \<Longrightarrow>
     filter_chain ss u = Inr (u\<lparr>rows := filter (keeps (columns t) ss) (rows u)\<rparr>)"
proof (induction ss arbitrary: t u)
  case Nil
  then show ?case by (simp add: keeps_def)
next
  case (Cons s ss)
  obtain c opr k where s: "s = (c, opr, k)" by (cases s)
  let ?P = "\<lambda>r. holds opr k (cell_at (columns t) c r)"
  from Cons.prems(1) obtain t1 where t1: "filter_cmp c opr k t = Inr t1" and r: "filter_chain ss t1 = Inr t'"
    by (auto simp: s and_then_eq_Inr)
  from t1 have c1: "columns t1 = columns t" and r1: "rows t1 = filter ?P (rows t)"
    and ok: "c \<in> set (columns t)" "\<forall>r\<in>set (rows t). comparable opr (cell_at (columns t) c r)"
    by (simp_all add: filter_cmp_Inr)
  define u1 where "u1 = u\<lparr>rows := filter ?P (rows u)\<rparr>"
  have fu: "filter_cmp c opr k u = Inr u1"
    using ok Cons.prems(2,3) by (auto simp: filter_cmp_Inr u1_def)
  have cu: "columns u1 = columns t1" using c1 Cons.prems(2) by (simp add: u1_def)
  have su: "set (rows u1) \<subseteq> set (rows t1)" using r1 Cons.prems(3) by (auto simp: u1_def)
  have "filter_chain ss u1 = Inr (u1\<lparr>rows := filter (keeps (columns t1) ss) (rows u1)\<rparr>)"
    by (rule Cons.IH [OF r cu su])
  moreover have "filter (keeps (columns t1) ss) (rows u1) = filter (keeps (columns t) (s # ss)) (rows u)"
    by (auto simp: u1_def c1 s keeps_def intro: filter_cong)
  ultimately show ?case using fu by (simp add: s u1_def)
qed

lemma filter_chain_idem: "and_then (filter_chain ss t) (filter_chain ss) = filter_chain ss t"
proof (cases "filter_chain ss t")
  case (Inl e)
  then show ?thesis by simp
next
  case (Inr t')
  from filter_chain_result [OF Inr] have c: "columns t' = columns t"
    and r: "rows t' = filter (keeps (columns t) ss) (rows t)" by simp_all
  have "filter_chain ss t' = Inr (t'\<lparr>rows := filter (keeps (columns t) ss) (rows t')\<rparr>)"
    using filter_chain_sub [OF Inr c] r by simp
  moreover have "filter (keeps (columns t) ss) (rows t') = rows t'"
    by (simp add: r)
  ultimately show ?thesis using Inr by simp
qed

lemma filter_chain_fun:
  "filter_chain [] = Inr"
  "filter_chain ((c, opr, k) # ss) = (\<lambda>df. and_then (filter_cmp c opr k df) (filter_chain ss))"
  by (simp_all add: fun_eq_iff)

lemma adult_filter_chain:
  "adult_filter = filter_chain [(''AGEP'', Gt, 16), (''PINCP'', Gt, 100), (''WKHP'', Gt, 0), (''PWGTP'', Ge, 1)]"
  by (rule ext) (simp add: adult_filter_def filter_chain_fun and_then_unit)

lemma public_coverage_filter_chain:
  "public_coverage_filter = filter_chain [(''AGEP'', Lt, 65), (''PINCP'', Le, 30000)]"
  by (rule ext) (simp add: public_coverage_filter_def filter_chain_fun and_then_unit)

lemma travel_time_filter_chain:
  "travel_time_filter = filter_chain [(''AGEP'', Gt, 16), (''PWGTP'', Ge, 1), (''ESR'', Eq, 1)]"
  by (rule ext) (simp add: travel_time_filter_def filter_chain_fun and_then_unit)

lemma employment_filter_chain:
  "employment_filter = filter_chain [(''AGEP'', Gt, 16), (''AGEP'', Lt, 90), (''PWGTP'', Ge, 1)]"
  by (rule ext) (simp add: employment_filter_def filter_chain_fun and_then_unit)

lemma map2_or: "map2 (\<or>) (map f xs) (map g xs) = map (\<lambda>x. f x \<or> g x) xs"
  by (induction xs) simp_all

lemma mobility_filter_Inr:
  "mobility_filter x = Inr x' \<longleftrightarrow>
     ''AGEP'' \<in> set (columns x) \<and> (\<forall>r\<in>set (rows x). \<not> is_str (cell_at (columns x) ''AGEP'' r)) \<and>
     x' = x\<lparr>rows := filter (mobility_keeps x) (rows x)\<rparr>"
proof (cases "''AGEP'' \<in> set (columns x)")
  case False
  then show ?thesis by (simp add: mobility_filter_def getitem_def)
next
  case True
  let ?s = "map (cell_at (columns x) ''AGEP'') (rows x)"
  have g: "getitem x ''AGEP'' = Inr ?s"
    using True by (simp add: getitem_def)
  show ?thesis
  proof (cases "\<forall>r\<in>set (rows x). \<not> is_str (cell_at (columns x) ''AGEP'' r)")
    case False
    then have "compare_series Le 18 ?s \<noteq> Inr m" for m
      by (auto simp: compare_series_Inr comparable_def)
    then obtain e where "compare_series Le 18 ?s = Inl e"
      by (cases "compare_series Le 18 ?s") auto
    with False show ?thesis by (simp add: mobility_filter_def g)
  next
    case ok: True
    have s1: "compare_series Le 18 ?s = Inr (map (holds Le 18) ?s)"
      and s2: "compare_series Ge 35 ?s = Inr (map (holds Ge 35) ?s)"
      using ok by (simp_all add: compare_series_Inr comparable_def)
    have m: "map2 (\<or>) (map (holds Le 18) ?s) (map (holds Ge 35) ?s)
             = map (mobility_drops (columns x)) (rows x)"
      using map2_or [of "\<lambda>r. holds Le 18 (cell_at (columns x) ''AGEP'' r)" "rows x"
                        "\<lambda>r. holds Ge 35 (cell_at (columns x) ''AGEP'' r)"]
      by (simp add: comp_def mobility_drops_def)
    have d: "rows (select_mask x (map (mobility_drops (columns x)) (rows x)))
             = filter (mobility_drops (columns x)) (rows x)"
      by (simp add: select_mask_def mask_filter)
    have "mobility_filter x = Inr (drop_labels x (map fst (filter (mobility_drops (columns x)) (rows x))))"
      unfolding mobility_filter_def g and_then_Inr s1 s2 m d ..
    also have "drop_labels x (map fst (filter (mobility_drops (columns x)) (rows x)))
               = x\<lparr>rows := filter (mobility_keeps x) (rows x)\<rparr>"
      by (simp add: drop_labels_def mobility_keeps_def)
    finally show ?thesis using True ok by auto
  qed
qed

lemma mobility_filter_idem: "and_then (mobility_filter x) mobility_filter = mobility_filter x"
proof (cases "mobility_filter x")
  case (Inl e)
  then show ?thesis by simp
next
  case (Inr x')
  then have a: "''AGEP'' \<in> set (columns x)"
    and n: "\<forall>r\<in>set (rows x). \<not> is_str (cell_at (columns x) ''AGEP'' r)"
    and x': "x' = x\<lparr>rows := filter (mobility_keeps x) (rows x)\<rparr>"
    by (simp_all add: mobility_filter_Inr)
  have c: "columns x' = columns x" and r: "rows x' = filter (mobility_keeps x) (rows x)"
    by (simp_all add: x')
  have "mobility_keeps x' r" if "r \<in> set (rows x')" for r
  proof -
    have "\<not> mobility_drops (columns x) q" if "q \<in> set (rows x')" for q
      using that by (auto simp: r mobility_keeps_def)
    then show ?thesis by (auto simp: mobility_keeps_def c)
  qed
  then have "filter (mobility_keeps x') (rows x') = rows x'"
    by (simp add: filter_id_conv)
  then have "mobility_filter x' = Inr x'"
    using a n by (auto simp: mobility_filter_Inr c r)
  with Inr show ?thesis by simp
qed

lemma holds_comparable: "holds opr k c \<Longrightarrow> comparable opr c"
  by (cases c) (auto simp: holds_def comparable_def split: if_splits)

lemma filter_all_but_one:
  assumes "i < length xs" and "\<not> P (xs ! i)" and "\<forall>j<length xs. j \<noteq> i \<longrightarrow> P (xs ! j)"
  shows "filter P xs = take i xs @ drop (Suc i) xs"
proof -
  have a: "\<forall>x\<in>set (take i xs). P x"
  proof
    fix x assume "x \<in> set (take i xs)"
    then obtain j where "j < length (take i xs)" "take i xs ! j = x"
      by (auto simp: in_set_conv_nth)
    with assms(1,3) show "P x" by auto
  qed
  have b: "\<forall>x\<in>set (drop (Suc i) xs). P x"
  proof
    fix x assume "x \<in> set (drop (Suc i) xs)"
    then obtain j where j: "j < length (drop (Suc i) xs)" "drop (Suc i) xs ! j = x"
      by (auto simp: in_set_conv_nth)
    then have "Suc i + j < length xs" "xs ! (Suc i + j) = x" by auto
    with assms(3) show "P x" by auto
  qed
  have "xs = take i xs @ xs ! i # drop (Suc i) xs"
    using assms(1) by (rule id_take_nth_drop)
  then have "filter P xs = filter P (take i xs @ xs ! i # drop (Suc i) xs)" by simp
  also have "\<dots> = take i xs @ drop (Suc i) xs"
    using a b assms(2) by (simp add: filter_id_conv)
  finally show ?thesis .
qed

section \<open>The examples, evaluated\<close>

lemmas example_defs =
  example_load_acs_def example_restrict_def example_source_def example_person_def example_household_def
  example_household_short_def example_joined_def

lemmas filter_eval =
  filter_cmp_def getitem_def cell_at_def select_mask_def and_then_def

lemma example_run:
  "get_data (example_load_acs example_person example_household) (\<lambda>cs. cs) (\<lambda>rs. rs)
     (example_source ''person'') None 1 0 True False ()
   = (Inr example_joined, example_source ''person'', ())"
  by (simp add: get_data_def example_defs getitem_def cell_at_def select_columns_def merge_def
      merge_rows_def and_then_def Let_def)

lemma example_adult_filter: "adult_filter example_income = Inr example_income_adults"
  by (simp add: adult_filter_def example_income_def example_income_adults_def filter_eval)

lemma example_features_and_target:
  "features_and_target (ACSIncome example_scale) example_income =
     Inr ([[Num 40, Num 23, Num 58, Num 31], [Num 1, Num 2, Num 6, Num 1],
           [Num 21, Num 16, Num 22, Num 19], [Num 1, Num 5, Num 1, Num 3],
           [Num 4700, Num 4020, Num 10, Num 5240], [Num 6, Num 48, Num 36, Num 6],
           [Num 0, Num 0, Num 1, Num 0], [Num 40, Num 35, Num 50, Num 38],
           [Num 1, Num 2, Num 1, Num 2], [Num 1, Num 2, Num 6, Num 9]],
          [True, False, False, True],
          [Num 1, Num 2, Num 6, Num 9])"
  unfolding features_and_target_def
  by (simp add: ACSIncome_def example_adult_filter example_scale_def)
     (simp add: example_income_adults_def getitem_def cell_at_def and_then_def)

lemma less_5_cases: "j < (5::nat) \<Longrightarrow> j = 0 \<or> j = 1 \<or> j = 2 \<or> j = 3 \<or> j = 4"
  by arith

lemma example_income_others:
  "\<forall>j<5. j \<noteq> 1 \<longrightarrow> holds Gt 16 (cell_at (columns example_income) ''AGEP'' (rows example_income ! j))"
proof (intro allI impI)
  fix j :: nat
  assume "j < 5" and "j \<noteq> 1"
  with less_5_cases [of j] consider "j = 0" | "j = 2" | "j = 3" | "j = 4" by auto
  then show "holds Gt 16 (cell_at (columns example_income) ''AGEP'' (rows example_income ! j))"
    by cases (simp_all add: example_income_def cell_at_def holds_def)
qed

section \<open>The preprocess functions\<close>

text \<open>
  C6. Every preprocess of the catalog is idempotent: running it on its own output gives
  that output again, and a run that raises raises the same error; for \<open>adult_filter\<close>,
  \<open>public_coverage_filter\<close>, \<open>travel_time_filter\<close>, \<open>employment_filter\<close>, the age filter
  of ACSMobility and the identity.
\<close>

theorem preprocess_idempotent:
  "and_then (adult_filter t) adult_filter = adult_filter t \<and>
   and_then (public_coverage_filter t) public_coverage_filter = public_coverage_filter t \<and>
   and_then (travel_time_filter t) travel_time_filter = travel_time_filter t \<and>
   and_then (employment_filter t) employment_filter = employment_filter t \<and>
   and_then (mobility_filter t) mobility_filter = mobility_filter t \<and>
   and_then (identity_filter t) identity_filter = identity_filter t"
  unfolding adult_filter_chain public_coverage_filter_chain travel_time_filter_chain
    employment_filter_chain
  by (intro conjI filter_chain_idem mobility_filter_idem) (simp add: identity_filter_def)

lemma filter_chain_row_filter:
  "filter_chain ss t = Inr t' \<Longrightarrow>
     columns t' = columns t \<and> subseq (rows t') (rows t) \<and> length (rows t') \<le> length (rows t)"
  by (auto dest!: filter_chain_result)

lemma mobility_row_filter:
  "mobility_filter t = Inr t' \<Longrightarrow>
     columns t' = columns t \<and> subseq (rows t') (rows t) \<and> length (rows t') \<le> length (rows t)"
  by (auto simp: mobility_filter_Inr)

lemma preprocess_catalog:
  "p \<in> set (catalog scale nan_to_num) \<Longrightarrow>
     preprocess p \<in> {adult_filter, identity_filter, public_coverage_filter, travel_time_filter,
                       mobility_filter, employment_filter}"
  by (auto simp: catalog_def ACSIncome_def ACSEmployment_def ACSHealthInsurance_def
      ACSPublicCoverage_def ACSTravelTime_def ACSMobility_def ACSEmploymentFiltered_def
      ACSIncomePovertyRatio_def)

lemma adult_row_filter:
  "adult_filter t = Inr t' \<Longrightarrow>
     columns t' = columns t \<and> subseq (rows t') (rows t) \<and> length (rows t') \<le> length (rows t)"
  unfolding adult_filter_chain by (rule filter_chain_row_filter)

lemma public_coverage_row_filter:
  "public_coverage_filter t = Inr t' \<Longrightarrow>
     columns t' = columns t \<and> subseq (rows t') (rows t) \<and> length (rows t') \<le> length (rows t)"
  unfolding public_coverage_filter_chain by (rule filter_chain_row_filter)

lemma travel_time_row_filter:
  "travel_time_filter t = Inr t' \<Longrightarrow>
     columns t' = columns t \<and> subseq (rows t') (rows t) \<and> length (rows t') \<le> length (rows t)"
  unfolding travel_time_filter_chain by (rule filter_chain_row_filter)

lemma employment_row_filter:
  "employment_filter t = Inr t' \<Longrightarrow>
     columns t' = columns t \<and> subseq (rows t') (rows t) \<and> length (rows t') \<le> length (rows t)"
  unfolding employment_filter_chain by (rule filter_chain_row_filter)

text \<open>
  C7. The preprocess of every task of the catalog is a row filter: when it returns, the
  output has the columns of the input, its rows are a subsequence of the input rows (index
  labels and cells unchanged), and so it has at most as many rows.
\<close>

theorem preprocess_row_filter:
  assumes "p \<in> set (catalog scale nan_to_num)" and "preprocess p t = Inr t'"
  shows "columns t' = columns t \<and> subseq (rows t') (rows t) \<and> length (rows t') \<le> length (rows t)"
proof -
  from preprocess_catalog [OF assms(1)]
  consider "preprocess p = adult_filter" | "preprocess p = identity_filter"
    | "preprocess p = public_coverage_filter" | "preprocess p = travel_time_filter"
    | "preprocess p = mobility_filter" | "preprocess p = employment_filter"
    by auto
  then show ?thesis
  proof cases
    case 1
    with assms(2) show ?thesis by (simp add: adult_row_filter)
  next
    case 2
    with assms(2) show ?thesis by (auto simp: identity_filter_def)
  next
    case 3
    with assms(2) show ?thesis by (simp add: public_coverage_row_filter)
  next
    case 4
    with assms(2) show ?thesis by (simp add: travel_time_row_filter)
  next
    case 5
    with assms(2) show ?thesis by (simp add: mobility_row_filter)
  next
    case 6
    with assms(2) show ?thesis by (simp add: employment_row_filter)
  qed
qed

theorem preprocess_row_filter_witness:
  "columns example_income_adults = columns example_income \<and>
   subseq (rows example_income_adults) (rows example_income) \<and>
   length (rows example_income_adults) \<le> length (rows example_income)"
proof -
  have "ACSIncome example_scale \<in> set (catalog example_scale example_nan_to_num)"
    by (simp add: catalog_def)
  moreover have "preprocess (ACSIncome example_scale) example_income = Inr example_income_adults"
    by (simp add: ACSIncome_def example_adult_filter)
  ultimately show ?thesis by (rule preprocess_row_filter)
qed

lemma filter_chain_returns:
  "\<forall>(c, opr, k)\<in>set ss. c \<in> set (columns t) \<and> (\<forall>r\<in>set (rows t). comparable opr (cell_at (columns t) c r)) \<Longrightarrow>
     filter_chain ss t = Inr (t\<lparr>rows := filter (keeps (columns t) ss) (rows t)\<rparr>)"
proof (induction ss arbitrary: t)
  case Nil
  then show ?case by (simp add: keeps_def)
next
  case (Cons s ss)
  obtain c opr k where s: "s = (c, opr, k)" by (cases s)
  let ?t1 = "t\<lparr>rows := filter (\<lambda>r. holds opr k (cell_at (columns t) c r)) (rows t)\<rparr>"
  have f: "filter_cmp c opr k t = Inr ?t1"
    using Cons.prems by (simp add: s filter_cmp_Inr)
  have "filter_chain ss ?t1 = Inr (?t1\<lparr>rows := filter (keeps (columns ?t1) ss) (rows ?t1)\<rparr>)"
    by (rule Cons.IH) (use Cons.prems in auto)
  moreover have "filter (keeps (columns ?t1) ss) (rows ?t1) = filter (keeps (columns t) (s # ss)) (rows t)"
    by (auto simp: s keeps_def intro: filter_cong)
  ultimately show ?case using f by (simp add: s)
qed

lemma holds_Lt: "holds Lt k c = cell_lt c k"
  by (cases c) (simp_all add: holds_def)

lemma holds_Le: "holds Le k c = cell_le c k"
  by (cases c) (simp_all add: holds_def)

text \<open>
  C10. When \<open>public_coverage_filter\<close> returns, its output has the columns of the input
  and exactly the input rows whose \<open>AGEP\<close> is below 65 and whose \<open>PINCP\<close> is at most
  30000, in their original order; and it returns whenever the column names are distinct,
  both columns are present and neither holds a string.
\<close>

theorem public_coverage_filter_exact:
  "(public_coverage_filter t = Inr t' \<longrightarrow>
      columns t' = columns t \<and>
      rows t' = filter (\<lambda>r. cell_lt (cell_at (columns t) ''AGEP'' r) 65 \<and>
                            cell_le (cell_at (columns t) ''PINCP'' r) 30000) (rows t)) \<and>
   (distinct (columns t) \<and>
    ''AGEP'' \<in> set (columns t) \<and> ''PINCP'' \<in> set (columns t) \<and>
    (\<forall>r\<in>set (rows t). \<not> is_str (cell_at (columns t) ''AGEP'' r) \<and>
                        \<not> is_str (cell_at (columns t) ''PINCP'' r)) \<longrightarrow>
      (\<exists>t'. public_coverage_filter t = Inr t'))"
proof (intro conjI impI)
  assume r: "public_coverage_filter t = Inr t'"
  then have "filter_chain [(''AGEP'', Lt, 65), (''PINCP'', Le, 30000)] t = Inr t'"
    by (simp add: public_coverage_filter_chain)
  from filter_chain_result [OF this]
  show "columns t' = columns t"
    and "rows t' = filter (\<lambda>r. cell_lt (cell_at (columns t) ''AGEP'' r) 65 \<and>
                            cell_le (cell_at (columns t) ''PINCP'' r) 30000) (rows t)"
    by (simp_all add: keeps_def holds_Lt holds_Le)
next
  assume "distinct (columns t) \<and>
    ''AGEP'' \<in> set (columns t) \<and> ''PINCP'' \<in> set (columns t) \<and>
    (\<forall>r\<in>set (rows t). \<not> is_str (cell_at (columns t) ''AGEP'' r) \<and>
                        \<not> is_str (cell_at (columns t) ''PINCP'' r))"
  then have "filter_chain [(''AGEP'', Lt, 65), (''PINCP'', Le, 30000)] t
             = Inr (t\<lparr>rows := filter (keeps (columns t) [(''AGEP'', Lt, 65), (''PINCP'', Le, 30000)]) (rows t)\<rparr>)"
    by (intro filter_chain_returns) (simp add: comparable_def)
  then show "\<exists>t'. public_coverage_filter t = Inr t'"
    by (simp add: public_coverage_filter_chain)
qed

theorem public_coverage_filter_exact_witness:
  "public_coverage_filter example_coverage = Inr example_coverage_kept"
proof -
  have "distinct (columns example_coverage) \<and>
        ''AGEP'' \<in> set (columns example_coverage) \<and> ''PINCP'' \<in> set (columns example_coverage) \<and>
        (\<forall>r\<in>set (rows example_coverage).
            \<not> is_str (cell_at (columns example_coverage) ''AGEP'' r) \<and>
            \<not> is_str (cell_at (columns example_coverage) ''PINCP'' r))"
    by (simp add: example_coverage_def cell_at_def)
  with public_coverage_filter_exact [of example_coverage]
  obtain t' where r: "public_coverage_filter example_coverage = Inr t'" by blast
  with public_coverage_filter_exact [of example_coverage t']
  have "columns t' = columns example_coverage"
    and "rows t' = filter (\<lambda>r. cell_lt (cell_at (columns example_coverage) ''AGEP'' r) 65 \<and>
                               cell_le (cell_at (columns example_coverage) ''PINCP'' r) 30000)
                          (rows example_coverage)"
    by simp_all
  then have "t' = example_coverage_kept"
    by (simp add: example_coverage_def example_coverage_kept_def cell_at_def)
  with r show ?thesis by simp
qed

section \<open>The tasks\<close>

text \<open>
  C5. A table of five rows, all with \<open>PINCP > 100\<close>, \<open>WKHP > 0\<close> and \<open>PWGTP >= 1\<close>, row
  \<open>i\<close> with \<open>AGEP = 15\<close> and the four others with \<open>AGEP > 16\<close>: \<open>adult_filter\<close> returns
  the table without row \<open>i\<close>, four rows; the target transform of ACSIncome on its
  \<open>PINCP\<close> column returns four booleans, entry \<open>k\<close> being \<open>PINCP > 50000\<close> of the
  \<open>k\<close>-th surviving row; and whenever \<open>features_and_target\<close> returns for the task, its
  label vector is that list.
\<close>

theorem acs_income_example:
  assumes cols: "''AGEP'' \<in> set (columns t)" "''PINCP'' \<in> set (columns t)"
      "''WKHP'' \<in> set (columns t)" "''PWGTP'' \<in> set (columns t)"
    and n: "length (rows t) = 5"
    and ok: "\<forall>r\<in>set (rows t). holds Gt 100 (cell_at (columns t) ''PINCP'' r) \<and>
                                 holds Gt 0 (cell_at (columns t) ''WKHP'' r) \<and>
                                 holds Ge 1 (cell_at (columns t) ''PWGTP'' r)"
    and i: "i < 5" "cell_at (columns t) ''AGEP'' (rows t ! i) = Num 15"
    and others: "\<forall>j<5. j \<noteq> i \<longrightarrow> holds Gt 16 (cell_at (columns t) ''AGEP'' (rows t ! j))"
  shows "\<exists>t' y. adult_filter t = Inr t' \<and> columns t' = columns t \<and>
           rows t' = take i (rows t) @ drop (Suc i) (rows t) \<and> length (rows t') = 4 \<and>
           and_then (getitem t' (target (ACSIncome scale))) (target_transform (ACSIncome scale)) = Inr y \<and>
           length y = 4 \<and>
           (\<forall>k<4. y ! k = holds Gt 50000 (cell_at (columns t') ''PINCP'' (rows t' ! k))) \<and>
           (\<forall>X y' g. features_and_target (ACSIncome scale) t = Inr (X, y', g) \<longrightarrow> y' = y)"
proof -
  let ?ss = "[(''AGEP'', Gt, 16), (''PINCP'', Gt, 100), (''WKHP'', Gt, 0), (''PWGTP'', Ge, 1)]"
  let ?age = "\<lambda>r. holds Gt 16 (cell_at (columns t) ''AGEP'' r)"
  let ?pincp = "cell_at (columns t) ''PINCP''"
  define rs where "rs = take i (rows t) @ drop (Suc i) (rows t)"
  define t' where "t' = t\<lparr>rows := rs\<rparr>"
  define y where "y = map (\<lambda>r. holds Gt 50000 (?pincp r)) rs"
  have age_cmp: "comparable Gt (cell_at (columns t) ''AGEP'' r)" if "r \<in> set (rows t)" for r
  proof -
    from that obtain j where j: "j < 5" "rows t ! j = r"
      using n by (auto simp: in_set_conv_nth)
    show ?thesis
    proof (cases "j = i")
      case True
      with i j show ?thesis by (auto simp: comparable_def)
    next
      case False
      with others j show ?thesis by (auto intro: holds_comparable)
    qed
  qed
  have "filter_chain ?ss t = Inr (t\<lparr>rows := filter (keeps (columns t) ?ss) (rows t)\<rparr>)"
    by (rule filter_chain_returns) (use cols ok age_cmp in \<open>auto intro: holds_comparable\<close>)
  moreover have "filter (keeps (columns t) ?ss) (rows t) = filter ?age (rows t)"
    by (rule filter_cong) (use ok in \<open>auto simp: keeps_def\<close>)
  moreover have "filter ?age (rows t) = rs"
    unfolding rs_def
    by (rule filter_all_but_one) (use n i others in \<open>auto simp: holds_def\<close>)
  ultimately have af: "adult_filter t = Inr t'"
    by (simp add: adult_filter_chain t'_def)
  have len: "length rs = 4" using n i by (auto simp: rs_def)
  have sub: "set rs \<subseteq> set (rows t)"
    by (auto simp: rs_def dest: in_set_takeD in_set_dropD)
  have "comparable Gt c" if "c \<in> set (map ?pincp rs)" for c
  proof -
    from that obtain r where "r \<in> set rs" "c = ?pincp r"
      unfolding set_map by blast
    with sub ok show ?thesis by (blast intro: holds_comparable)
  qed
  then have "compare_series Gt 50000 (map ?pincp rs) = Inr y"
    unfolding compare_series_Inr y_def by (simp add: comp_def)
  then have tg: "and_then (getitem t' (target (ACSIncome scale))) (target_transform (ACSIncome scale)) = Inr y"
    using cols by (simp add: ACSIncome_def getitem_def t'_def)
  have yk: "\<forall>k<4. y ! k = holds Gt 50000 (cell_at (columns t') ''PINCP'' (rows t' ! k))"
    using len by (simp add: y_def t'_def)
  have ft: "\<forall>X y' g. features_and_target (ACSIncome scale) t = Inr (X, y', g) \<longrightarrow> y' = y"
  proof (intro allI impI)
    fix X y' g
    assume "features_and_target (ACSIncome scale) t = Inr (X, y', g)"
    then obtain raw where "getitem t' (target (ACSIncome scale)) = Inr raw"
      "target_transform (ACSIncome scale) raw = Inr y'"
      unfolding features_and_target_def and_then_eq_Inr
      using af by (auto simp: ACSIncome_def)
    with tg show "y' = y" by simp
  qed
  have ly: "length y = 4" using len by (simp add: y_def)
  have ct: "columns t' = columns t" and rt: "rows t' = take i (rows t) @ drop (Suc i) (rows t)"
    by (simp_all add: t'_def rs_def)
  have lt: "length (rows t') = 4" using len by (simp add: t'_def)
  from af ct rt lt tg ly yk ft show ?thesis by blast
qed

theorem acs_income_example_witness:
  "adult_filter example_income = Inr example_income_adults \<and>
   length (rows example_income_adults) = 4 \<and>
   (\<exists>X g. features_and_target (ACSIncome example_scale) example_income
            = Inr (X, [True, False, False, True], g))"
proof -
  have cols: "''AGEP'' \<in> set (columns example_income)" "''PINCP'' \<in> set (columns example_income)"
    "''WKHP'' \<in> set (columns example_income)" "''PWGTP'' \<in> set (columns example_income)"
    by (simp_all add: example_income_def)
  have n: "length (rows example_income) = 5"
    by (simp add: example_income_def)
  have ok: "\<forall>r\<in>set (rows example_income).
              holds Gt 100 (cell_at (columns example_income) ''PINCP'' r) \<and>
              holds Gt 0 (cell_at (columns example_income) ''WKHP'' r) \<and>
              holds Ge 1 (cell_at (columns example_income) ''PWGTP'' r)"
    by (simp add: example_income_def cell_at_def holds_def)
  have i: "(1::nat) < 5" "cell_at (columns example_income) ''AGEP'' (rows example_income ! 1) = Num 15"
    by (simp_all add: example_income_def cell_at_def)
  from acs_income_example [OF cols n ok i example_income_others, of example_scale]
  obtain t' y where a: "adult_filter example_income = Inr t'" and l: "length (rows t') = 4"
    and ft: "\<forall>X y' g. features_and_target (ACSIncome example_scale) example_income = Inr (X, y', g)
               \<longrightarrow> y' = y"
    by blast
  from a have t': "t' = example_income_adults" by (simp add: example_adult_filter)
  from ft example_features_and_target have "y = [True, False, False, True]" by simp
  with a l t' example_features_and_target show ?thesis by simp
qed

text \<open>
  C9. Every task of the catalog has \<open>RAC1P\<close> as its group column, and whenever
  \<open>features_and_target\<close> returns for such a task, the group vector is the \<open>RAC1P\<close>
  column of the preprocessed table, cell for cell.
\<close>

theorem catalog_group_column:
  assumes "p \<in> set (catalog scale nan_to_num)"
  shows "group_column p = ''RAC1P'' \<and>
         (\<forall>t X y g. features_and_target p t = Inr (X, y, g) \<longrightarrow>
            (\<exists>filtered. preprocess p t = Inr filtered \<and>
                         getitem filtered ''RAC1P'' = Inr g \<and>
                         g = map (cell_at (columns filtered) ''RAC1P'') (rows filtered)))"
proof -
  from assms have gc: "group_column p = ''RAC1P''"
    by (auto simp: catalog_def ACSIncome_def ACSEmployment_def ACSHealthInsurance_def
        ACSPublicCoverage_def ACSTravelTime_def ACSMobility_def ACSEmploymentFiltered_def
        ACSIncomePovertyRatio_def)
  have "\<exists>filtered. preprocess p t = Inr filtered \<and> getitem filtered ''RAC1P'' = Inr g \<and>
                     g = map (cell_at (columns filtered) ''RAC1P'') (rows filtered)"
    if "features_and_target p t = Inr (X, y, g)" for t X y g
  proof -
    from that obtain filtered where f: "preprocess p t = Inr filtered"
      and g: "getitem filtered (group_column p) = Inr g"
      unfolding features_and_target_def and_then_eq_Inr by auto
    from g have "g = map (cell_at (columns filtered) ''RAC1P'') (rows filtered)"
      by (auto simp: gc getitem_def split: if_splits)
    with f g gc show ?thesis by auto
  qed
  with gc show ?thesis by blast
qed

theorem catalog_group_column_witness:
  "group_column (ACSIncome example_scale) = ''RAC1P'' \<and>
   (\<exists>X y. features_and_target (ACSIncome example_scale) example_income
            = Inr (X, y, map (cell_at (columns example_income_adults) ''RAC1P'')
                             (rows example_income_adults)))"
proof -
  have m: "ACSIncome example_scale \<in> set (catalog example_scale example_nan_to_num)"
    by (simp add: catalog_def)
  from catalog_group_column [OF m]
  have gc: "group_column (ACSIncome example_scale) = ''RAC1P''"
    and every: "\<forall>t X y g. features_and_target (ACSIncome example_scale) t = Inr (X, y, g) \<longrightarrow>
            (\<exists>filtered. preprocess (ACSIncome example_scale) t = Inr filtered \<and>
                         getitem filtered ''RAC1P'' = Inr g \<and>
                         g = map (cell_at (columns filtered) ''RAC1P'') (rows filtered))"
    by blast+
  from every [rule_format, OF example_features_and_target] obtain filtered where
    f: "preprocess (ACSIncome example_scale) example_income = Inr filtered"
    and g: "[Num 1, Num 2, Num 6, Num 9] = map (cell_at (columns filtered) ''RAC1P'') (rows filtered)"
    by (elim exE conjE)
  from f have "filtered = example_income_adults"
    by (simp add: ACSIncome_def example_adult_filter)
  with g gc example_features_and_target show ?thesis by simp
qed

section \<open>The data source, verified\<close>

lemma init_bad_horizon:
  "horizon \<noteq> ''1-Year'' \<Longrightarrow> horizon \<noteq> ''5-Year'' \<Longrightarrow> \<exists>e. init y horizon s r = Inl e"
  by (simp add: init_def)

lemma init_good_horizon:
  "horizon = ''1-Year'' \<or> horizon = ''5-Year'' \<Longrightarrow> \<exists>d. init y horizon s r = Inr d \<and> self_survey d = s"
  by (auto simp: init_def)

text \<open>
  C2. The constructor raises for a horizon other than \<open>1-Year\<close> and \<open>5-Year\<close>
  (\<open>init_bad_horizon\<close> below), but it does not look at the survey: with the survey
  \<open>banana\<close> it returns an instance.
\<close>

theorem init_accepts_any_survey:
  "init ''2018'' ''1-Year'' ''banana'' ''data'' =
     Inr \<lparr>self_survey_year = ''2018'', self_horizon = ''1-Year'',
          self_survey = ''banana'', self_root_dir = ''data''\<rparr>"
  by (simp add: init_def)

lemma get_data_plain:
  "get_data load_acs list_of row_order self states density seed False download w =
     (case load_acs (person_args self states density seed download) w of
        (r, w1) \<Rightarrow> (r, self, w1))"
  by (simp add: get_data_def person_args_def split: prod.splits sum.splits)

lemma get_data_join:
  "get_data load_acs list_of row_order self states density seed True download w =
     (case load_acs (person_args self states density seed download) w of
        (Inl e, w1) \<Rightarrow> (Inl e, self, w1)
      | (Inr data, w1) \<Rightarrow>
          if self_survey self \<noteq> ''person'' then (Inl (AssertionError None), self, w1)
          else (case getitem data ''SERIALNO'' of
                  Inl e \<Rightarrow> (Inl e, self, w1)
                | Inr serials \<Rightarrow>
                   (case load_acs (household_args self states serials download) w1 of
                      (Inl e, w2) \<Rightarrow> (Inl e, self, w2)
                    | (Inr hh, w2) \<Rightarrow>
                       (case merged list_of row_order data hh of
                          Inl e \<Rightarrow> (Inl e, self, w2)
                        | Inr join \<Rightarrow>
                           if length (rows join) = length (rows data) then (Inr join, self, w2)
                           else (Inl (AssertionError (Some (length (rows join), length (rows data)))),
                                 self, w2)))))"
  by (simp add: get_data_def person_args_def household_args_def household_cols_def merged_def
      Let_def split: prod.splits sum.splits)

lemma get_data_join_Inr:
  assumes "get_data load_acs list_of row_order self states density seed True download w = (Inr join, self', w')"
  shows "\<exists>data w1 serials hh.
      load_acs (person_args self states density seed download) w = (Inr data, w1) \<and>
      self_survey self = ''person'' \<and>
      getitem data ''SERIALNO'' = Inr serials \<and>
      load_acs (household_args self states serials download) w1 = (Inr hh, w') \<and>
      merged list_of row_order data hh = Inr join \<and>
      length (rows join) = length (rows data) \<and> self' = self"
  using assms unfolding get_data_join
  by (auto split: prod.splits sum.splits if_splits)

text \<open>
  C8. \<open>get_data\<close> leaves the instance as it found it, whatever the arguments and
  whether it returns a table or raises; so a second call on the instance it leaves is
  the call on the original instance.
\<close>

theorem get_data_keeps_configuration:
  "fst (snd (get_data load_acs list_of row_order self states density seed join_household download w)) = self \<and>
   get_data load_acs list_of row_order
     (fst (snd (get_data load_acs list_of row_order self states density seed join_household download w)))
     states density seed join_household download w'
   = get_data load_acs list_of row_order self states density seed join_household download w'"
proof -
  have "fst (snd (get_data load_acs list_of row_order self states density seed join_household download w)) = self"
  proof (cases join_household)
    case True
    then show ?thesis
      by (auto simp: get_data_join split: prod.splits sum.splits)
  next
    case False
    then show ?thesis by (auto simp: get_data_plain split: prod.splits)
  qed
  then show ?thesis by simp
qed

text \<open>
  C4. With \<open>join_household\<close> set, on a data source whose survey is not \<open>person\<close>,
  \<open>get_data\<close> raises: the error of the first load if that fails, the assertion error
  otherwise; the household table is not loaded and nothing is merged.
\<close>

theorem join_needs_person_survey:
  assumes "self_survey self \<noteq> ''person''"
  shows "get_data load_acs list_of row_order self states density seed True download w =
           (case load_acs (person_args self states density seed download) w of
              (Inl e, w1) \<Rightarrow> (Inl e, self, w1)
            | (Inr data, w1) \<Rightarrow> (Inl (AssertionError None), self, w1)) \<and>
         (\<exists>e. fst (get_data load_acs list_of row_order self states density seed True download w) = Inl e)"
  using assms unfolding get_data_join
  by (auto split: prod.splits sum.splits)

theorem join_needs_person_survey_witness:
  "get_data (example_load_acs example_person example_household) (\<lambda>cs. cs) (\<lambda>rs. rs)
     (example_source ''household'') None 1 0 True False ()
   = (Inl (AssertionError None), example_source ''household'', ())"
proof -
  have "self_survey (example_source ''household'') \<noteq> ''person''"
    by (simp add: example_source_def)
  from join_needs_person_survey [OF this,
      where load_acs = "example_load_acs example_person example_household"
        and list_of = "\<lambda>cs. cs" and row_order = "\<lambda>rs. rs" and states = None and density = 1 and seed = 0
        and download = False and w = "()"]
  show ?thesis
    by (simp add: example_load_acs_def example_restrict_def person_args_def example_source_def example_person_def)
qed

text \<open>
  C1. With \<open>join_household\<close> set: a table that \<open>get_data\<close> returns has as many rows
  as the person table it loaded; and when the merged table has another number of rows
  than the person table, \<open>get_data\<close> raises the assertion error that carries the two
  lengths.
\<close>

theorem join_keeps_row_count:
  assumes "get_data load_acs list_of row_order self states density seed True download w = (res, self', w')"
  shows "(\<forall>join. res = Inr join \<longrightarrow>
            (\<exists>data w1. load_acs (person_args self states density seed download) w = (Inr data, w1) \<and>
                       length (rows join) = length (rows data))) \<and>
         (\<forall>data w1 serials hh w2 join.
            load_acs (person_args self states density seed download) w = (Inr data, w1) \<and>
            self_survey self = ''person'' \<and>
            getitem data ''SERIALNO'' = Inr serials \<and>
            load_acs (household_args self states serials download) w1 = (Inr hh, w2) \<and>
            merged list_of row_order data hh = Inr join \<and>
            length (rows join) \<noteq> length (rows data) \<longrightarrow>
            res = Inl (AssertionError (Some (length (rows join), length (rows data)))))"
proof (intro conjI allI impI)
  fix join
  assume "res = Inr join"
  with assms get_data_join_Inr [of load_acs list_of row_order self states density seed download w join self' w']
  show "\<exists>data w1. load_acs (person_args self states density seed download) w = (Inr data, w1) \<and>
                   length (rows join) = length (rows data)"
    by blast
next
  fix data w1 serials hh w2 join
  assume "load_acs (person_args self states density seed download) w = (Inr data, w1) \<and>
            self_survey self = ''person'' \<and>
            getitem data ''SERIALNO'' = Inr serials \<and>
            load_acs (household_args self states serials download) w1 = (Inr hh, w2) \<and>
            merged list_of row_order data hh = Inr join \<and>
            length (rows join) \<noteq> length (rows data)"
  with assms show "res = Inl (AssertionError (Some (length (rows join), length (rows data))))"
    unfolding get_data_join by simp
qed

theorem join_keeps_row_count_witness:
  "length (rows example_joined) = length (rows example_person) \<and>
   fst (get_data (example_load_acs example_person example_household_short) (\<lambda>cs. cs) (\<lambda>rs. rs)
          (example_source ''person'') None 1 0 True False ())
   = Inl (AssertionError (Some (2, 3)))"
proof -
  let ?self = "example_source ''person''"
  let ?serials = "[Str ''H1'', Str ''H1'', Str ''H2'']"
  let ?hh = "example_household_short\<lparr>rows := [(0, [Str ''H1'', Num 6, Num 2, Num 90000])]\<rparr>"
  from join_keeps_row_count [OF example_run]
  have "\<exists>data w1. example_load_acs example_person example_household
                     (person_args ?self None 1 0 False) () = (Inr data, w1) \<and>
                   length (rows example_joined) = length (rows data)"
    by blast
  then have first: "length (rows example_joined) = length (rows example_person)"
    by (simp add: example_load_acs_def example_restrict_def person_args_def example_source_def example_person_def)
  obtain res s' w' where run:
    "get_data (example_load_acs example_person example_household_short) (\<lambda>cs. cs) (\<lambda>rs. rs)
       ?self None 1 0 True False () = (res, s', w')"
    by (rule prod_cases3)
  have "example_load_acs example_person example_household_short
          (person_args ?self None 1 0 False) () = (Inr example_person, ()) \<and>
        self_survey ?self = ''person'' \<and>
        getitem example_person ''SERIALNO'' = Inr ?serials \<and>
        example_load_acs example_person example_household_short
          (household_args ?self None ?serials False) () = (Inr ?hh, ()) \<and>
        merged (\<lambda>cs. cs) (\<lambda>rs. rs) example_person ?hh = Inr example_joined_short \<and>
        length (rows example_joined_short) \<noteq> length (rows example_person)"
    by (simp add: example_defs example_joined_short_def person_args_def household_args_def
        merged_def household_cols_def getitem_def cell_at_def select_columns_def merge_def
        merge_rows_def and_then_def Let_def)
  with join_keeps_row_count [OF run]
  have "res = Inl (AssertionError (Some (length (rows example_joined_short),
                                         length (rows example_person))))"
    by blast
  then have "res = Inl (AssertionError (Some (2, 3)))"
    by (simp add: example_joined_short_def example_person_def)
  with run first show ?thesis by simp
qed

lemma map_index_of: "c \<in> set cs \<Longrightarrow> map f cs ! index_of c cs = f c"
  by (induction cs) auto

lemma cell_at_selected:
  "c \<in> set cs \<Longrightarrow> cell_at cs c (i, map (\<lambda>c. cell_at ds c r) cs) = cell_at ds c r"
  by (simp add: cell_at_def map_index_of)

lemma select_columns_Inr:
  "select_columns df cs = Inr h \<longleftrightarrow>
     set cs \<subseteq> set (columns df) \<and>
     h = \<lparr>columns = cs, rows = map (\<lambda>r. (fst r, map (\<lambda>c. cell_at (columns df) c r) cs)) (rows df)\<rparr>"
proof (cases "filter (\<lambda>c. c \<notin> set (columns df)) cs")
  case Nil
  then have "set cs \<subseteq> set (columns df)"
    by (auto simp: filter_empty_conv)
  with Nil show ?thesis by (auto simp: select_columns_def)
next
  case (Cons c rest)
  then have "c \<in> set (filter (\<lambda>c. c \<notin> set (columns df)) cs)" by simp
  then have "\<not> set cs \<subseteq> set (columns df)" by auto
  with Cons show ?thesis by (simp add: select_columns_def)
qed

lemma merge_rows_selected:
  assumes "key \<in> set cs"
  shows "merge_rows data
           \<lparr>columns = cs, rows = map (\<lambda>r. (fst r, map (\<lambda>c. cell_at (columns hh) c r) cs)) (rows hh)\<rparr> key
         = joined_cells data hh key (filter (\<lambda>c. c \<noteq> key) cs)"
proof -
  let ?g = "\<lambda>r. (fst r, map (\<lambda>c. cell_at (columns hh) c r) cs)"
  have k: "cell_at cs key (?g r) = cell_at (columns hh) key r" for r
    using assms by (simp add: cell_at_selected)
  have e: "map (\<lambda>c. cell_at cs c (?g r)) (filter (\<lambda>c. c \<noteq> key) cs)
           = map (\<lambda>c. cell_at (columns hh) c r) (filter (\<lambda>c. c \<noteq> key) cs)" for r
    by (rule map_cong) (simp_all add: cell_at_selected)
  show ?thesis
    unfolding merge_rows_def joined_cells_def
    by (simp add: filter_map comp_def k e del: fst_conv)
qed

lemma merged_Inr:
  assumes lo: "\<forall>cs. set (list_of cs) = set cs"
    and ro: "\<forall>rs. mset (row_order rs) = mset rs"
    and s: "''SERIALNO'' \<in> set (columns data)"
    and m: "merged list_of row_order data hh = Inr join"
  shows "\<exists>extra. columns join = columns data @ extra \<and>
           set extra = set (columns hh) - set (columns data) \<and>
           mset (map snd (rows join)) = mset (joined_cells data hh ''SERIALNO'' extra)"
proof -
  let ?cs = "list_of (household_cols data hh)"
  let ?extra = "filter (\<lambda>c. c \<noteq> ''SERIALNO'') ?cs"
  have set_cs: "set ?cs = (set (columns hh) - set (columns data)) \<union> {''SERIALNO''}"
    using lo by (auto simp: household_cols_def)
  from m obtain h where h: "select_columns hh ?cs = Inr h"
    and j: "merge row_order data h ''SERIALNO'' = Inr join"
    by (auto simp: merged_def and_then_def split: sum.splits)
  from h have sub: "set ?cs \<subseteq> set (columns hh)"
    and hd: "h = \<lparr>columns = ?cs, rows = map (\<lambda>r. (fst r, map (\<lambda>c. cell_at (columns hh) c r) ?cs)) (rows hh)\<rparr>"
    by (simp_all add: select_columns_Inr)
  have key: "''SERIALNO'' \<in> set ?cs" using set_cs by simp
  have ch: "columns h = ?cs" by (simp add: hd)
  have left: "map (\<lambda>c. if c \<noteq> ''SERIALNO'' \<and> c \<in> set ?cs then c @ ''_x'' else c) (columns data)
              = columns data"
    by (rule map_idI) (use set_cs in auto)
  have right: "map (\<lambda>c. if c \<in> set (columns data) then c @ ''_y'' else c) ?extra = ?extra"
    by (rule map_idI) (use set_cs in auto)
  from j have cj: "columns join = columns data @ ?extra"
    and rj: "rows join = (let rs = row_order (merge_rows data h ''SERIALNO'') in zip [0..<length rs] rs)"
    using s key by (auto simp: merge_def ch left right split: if_splits)
  have "set ?extra = set (columns hh) - set (columns data)"
    using set_cs s by auto
  moreover have "map snd (rows join) = row_order (joined_cells data hh ''SERIALNO'' ?extra)"
    unfolding rj Let_def hd by (simp add: merge_rows_selected [OF key])
  then have "mset (map snd (rows join)) = mset (joined_cells data hh ''SERIALNO'' ?extra)"
    using ro by simp
  ultimately show ?thesis using cj by blast
qed

lemma example_honours_serial_filter: "honours_serial_filter (example_load_acs person household)"
  by (auto simp: honours_serial_filter_def example_load_acs_def example_restrict_def
      split: if_splits)

lemma example_run_rev:
  "get_data (example_load_acs example_person example_household) rev rev
     (example_source ''person'') None 1 0 True False ()
   = (Inr example_joined_rev, example_source ''person'', ())"
  by (simp add: get_data_def example_defs example_joined_rev_def getitem_def cell_at_def
      select_columns_def merge_def merge_rows_def and_then_def Let_def)

text \<open>
  C3. With \<open>join_household\<close> set, when \<open>get_data\<close> returns a table: the household
  table was loaded with the \<open>SERIALNO\<close> column of the loaded person table as its serial
  filter list, so that, the loader honouring that list, every household row loaded has
  the serial number of a loaded person; the columns of the result are those of the
  person table followed by exactly the household columns that the person table lacks;
  and its rows are, in some order, those of the inner join of the two tables on
  \<open>SERIALNO\<close>. (\<open>list_of\<close> enumerates a set of names in some order, \<open>row_order\<close>
  rearranges the joined rows.)
\<close>

theorem join_household_columns:
  assumes "\<forall>cs. set (list_of cs) = set cs"
    and "\<forall>rs. mset (row_order rs) = mset rs"
    and "honours_serial_filter load_acs"
    and "get_data load_acs list_of row_order self states density seed True download w
         = (Inr join, self', w')"
  shows "\<exists>data w1 serials hh extra.
      load_acs (person_args self states density seed download) w = (Inr data, w1) \<and>
      getitem data ''SERIALNO'' = Inr serials \<and>
      serials = map (cell_at (columns data) ''SERIALNO'') (rows data) \<and>
      load_acs (household_args self states serials download) w1 = (Inr hh, w') \<and>
      (\<forall>r\<in>set (rows hh). cell_at (columns hh) ''SERIALNO'' r \<in> set serials) \<and>
      columns join = columns data @ extra \<and>
      set extra = set (columns hh) - set (columns data) \<and>
      set (columns join) = set (columns data) \<union> (set (columns hh) - set (columns data)) \<and>
      mset (map snd (rows join)) = mset (joined_cells data hh ''SERIALNO'' extra)"
proof -
  from get_data_join_Inr [OF assms(4)] obtain data w1 serials hh where
    p: "load_acs (person_args self states density seed download) w = (Inr data, w1)"
    and g: "getitem data ''SERIALNO'' = Inr serials"
    and h: "load_acs (household_args self states serials download) w1 = (Inr hh, w')"
    and m: "merged list_of row_order data hh = Inr join"
    by blast
  from g have s: "''SERIALNO'' \<in> set (columns data)"
    and sv: "serials = map (cell_at (columns data) ''SERIALNO'') (rows data)"
    by (auto simp: getitem_def split: if_splits)
  have "arg_serial_filter_list (household_args self states serials download) = Some serials"
    by (simp add: household_args_def)
  with assms(3) h have r: "\<forall>r\<in>set (rows hh). cell_at (columns hh) ''SERIALNO'' r \<in> set serials"
    unfolding honours_serial_filter_def by blast
  from merged_Inr [OF assms(1,2) s m] obtain extra where
    e: "columns join = columns data @ extra" "set extra = set (columns hh) - set (columns data)"
       "mset (map snd (rows join)) = mset (joined_cells data hh ''SERIALNO'' extra)"
    by blast
  then have "set (columns join) = set (columns data) \<union> (set (columns hh) - set (columns data))"
    by simp
  with p g sv h r e show ?thesis by blast
qed

theorem join_household_columns_witness:
  "get_data (example_load_acs example_person example_household) rev rev
     (example_source ''person'') None 1 0 True False ()
   = (Inr example_joined_rev, example_source ''person'', ()) \<and>
   map (cell_at (columns example_household_loaded) ''SERIALNO'') (rows example_household_loaded)
   = [Str ''H1'', Str ''H2''] \<and>
   columns example_joined_rev = columns example_person @ [''HINCP'', ''NP''] \<and>
   mset (map snd (rows example_joined_rev))
   = mset (joined_cells example_person example_household_loaded ''SERIALNO'' [''HINCP'', ''NP''])"
proof -
  let ?self = "example_source ''person''"
  let ?load = "example_load_acs example_person example_household"
  have lo: "\<forall>cs::string list. set (rev cs) = set cs" by simp
  have ro: "\<forall>rs::cell list list. mset (rev rs) = mset rs" by simp
  from join_household_columns [OF lo ro example_honours_serial_filter example_run_rev]
  obtain data w1 serials hh extra where
    p: "?load (person_args ?self None 1 0 False) () = (Inr data, w1)"
    and sv: "serials = map (cell_at (columns data) ''SERIALNO'') (rows data)"
    and h: "?load (household_args ?self None serials False) w1 = (Inr hh, ())"
    and c: "columns example_joined_rev = columns data @ extra"
    and r: "mset (map snd (rows example_joined_rev)) = mset (joined_cells data hh ''SERIALNO'' extra)"
    by blast
  from p have d: "data = example_person"
    by (simp add: example_load_acs_def example_restrict_def person_args_def example_source_def
        example_person_def)
  with sv have s: "serials = [Str ''H1'', Str ''H1'', Str ''H2'']"
    by (simp add: example_person_def cell_at_def)
  from h have hh: "hh = example_household_loaded"
    unfolding s
    by (simp add: example_load_acs_def example_restrict_def household_args_def
        example_household_def example_household_loaded_def cell_at_def)
  from c d have e: "extra = [''HINCP'', ''NP'']"
    by (simp add: example_joined_rev_def example_person_def)
  have "map (cell_at (columns example_household_loaded) ''SERIALNO'') (rows example_household_loaded)
        = [Str ''H1'', Str ''H2'']"
    by (simp add: example_household_loaded_def cell_at_def)
  with example_run_rev c r d hh e show ?thesis by simp
qed

end
